theory Spec2Isabelle
  imports Main "HOL-Library.Word"
begin

section \<open>Machine data\<close>

text \<open>
  An \<^verbatim>\<open>unsigned int\<close> is a 32-bit word, so index arithmetic wraps as in the
  program.  A \<^verbatim>\<open>const int*\<close> table (\<^verbatim>\<open>inddiag\<close>) is kept by its two's-complement
  bit pattern: the sentinel \<^verbatim>\<open>-1\<close> is the word \<open>- 1\<close>, which is also what the
  conversion to \<^verbatim>\<open>unsigned int\<close> in \<^verbatim>\<open>ind0+inddiag[...]\<close> yields.

  A \<^verbatim>\<open>double\<close> is a value of an arbitrary carrier \<open>'a\<close> with uninterpreted
  \<open>+\<close>, \<open>-\<close> and \<open>*\<close>: no algebraic law is ever used, so every statement
  holds for whatever the floating-point unit computes.  An array is the function
  from its (32-bit) index to the element stored there.
\<close>

type_synonym uint = "32 word"
type_synonym 'a darr = "uint \<Rightarrow> 'a"
type_synonym uarr = "uint \<Rightarrow> uint"
type_synonym barr = "uint \<Rightarrow> bool"

text \<open>\<^verbatim>\<open>for (unsigned int i=0; i<n; i++)\<close> visits these values of \<open>i\<close>, in order.\<close>

definition upto_uint :: "uint \<Rightarrow> uint list" where
  "upto_uint n = map of_nat [0..<unat n]"

text \<open>
  A run of statements \<^verbatim>\<open>A[i] += v;\<close> (respectively \<^verbatim>\<open>A[i] -= v;\<close>), executed
  in the order of the list.
\<close>

definition add_to :: "'a::plus darr \<Rightarrow> (uint \<times> 'a) list \<Rightarrow> 'a darr" where
  "add_to A ws = fold (\<lambda>(i, v) B. B(i := B i + v)) ws A"

definition sub_from :: "'a::minus darr \<Rightarrow> (uint \<times> 'a) list \<Rightarrow> 'a darr" where
  "sub_from A ws = fold (\<lambda>(i, v) B. B(i := B i - v)) ws A"

text \<open>The output matrices: real and imaginary parts of U and T.\<close>

record 'a mats =
  URe :: "'a darr"
  UIm :: "'a darr"
  TRe :: "'a darr"
  TIm :: "'a darr"

text \<open>Every \<^verbatim>\<open>throw\<close> of the modelled routines.\<close>

datatype error =
    CoincidentPoint
      \<comment> \<open>An integration point coincides with the collocation point for singular integration.\<close>
  | WrongNumberOfArguments
  | TooManyArguments
  | NotEnoughArguments
  | MustBeNumeric string
  | MustNotBeSparse string
  | MustNotBeEmpty string
  | MustBeReal string
  | MustBeScalar string
  | MustBeVector string
  | MustBeIncreasing string
      \<comment> \<open>Input argument '...' must be monotonically increasing.\<close>
  | BadFirstDimension string
  | Incompatible string string
  | DimensionsMustAgree string string

text \<open>
  A loop whose body may throw: the first error ends it, and the state reached so
  far is lost with it.
\<close>

fun loop_throw :: "('x \<Rightarrow> 's \<Rightarrow> error + 's) \<Rightarrow> 'x list \<Rightarrow> 's \<Rightarrow> error + 's" where
  "loop_throw body [] s = Inr s"
| "loop_throw body (x # xs) s =
    (case body x s of Inl e \<Rightarrow> Inl e | Inr s' \<Rightarrow> loop_throw body xs s')"

section \<open>Set-up of a kernel family and allocation of the output matrices\<close>

type_synonym ulong = "64 word"

text \<open>
  What the gateway asks the host about an input array; the host's answers are
  data.  \<^verbatim>\<open>size_t\<close> values are 64-bit words.
\<close>

record 'a mxArray =
  mxIsNumeric :: bool
  mxIsSparse :: bool
  mxIsEmpty :: bool
  mxIsComplex :: bool
  mxGetNumberOfElements :: ulong
  mxGetNumberOfDimensions :: ulong
  mxGetDimensions :: "uint \<Rightarrow> ulong"
  mxGetM :: ulong
  mxGetN :: ulong
  mxGetPr :: "'a darr"

text \<open>
  The arguments of the \<^verbatim>\<open>Integrate...\<close> routines that are read before the call
  of \<^verbatim>\<open>bemmat\<close>.  \<open>nrhs\<close> is an \<^verbatim>\<open>int\<close>; it is only compared with
  \<^verbatim>\<open>unsigned int\<close> values and with 11 and 13, so it is kept as the word it
  converts to.  \<open>s_arg\<close> is the pointer \<^verbatim>\<open>s\<close>: \<open>None\<close> when it is null.
  \<open>ntgComp0\<close> and \<open>nColDof0\<close> are the indeterminate values of the variables
  \<^verbatim>\<open>ntgComp\<close> and \<^verbatim>\<open>nColDof\<close> before their assignments.
\<close>

record 'a mexargs =
  nrhs :: uint
  prhs :: "uint \<Rightarrow> 'a mxArray"
  probAxi :: bool
  probPeriodic :: bool
  probDim :: uint
  nTotalColl :: uint
  UmatOut :: bool
  TmatOut :: bool
  greenPos :: uint
  s_arg :: "'a darr option"
  ms :: uint
  ns :: uint
  ntgComp0 :: uint
  nColDof0 :: uint

text \<open>A call of \<^verbatim>\<open>mxCreateNumericArray\<close>: the dimensions and the complexity flag.\<close>

record mxCreate =
  dims :: "ulong list"
  mxCOMPLEX :: bool

text \<open>
  What a set-up routine has done when it reaches the call of \<^verbatim>\<open>bemmat\<close>: the
  output arrays created (\<open>plhs1\<close> only with traction output) and the kernel
  description handed on.
\<close>

record prepared =
  plhs0 :: mxCreate
  plhs1 :: "mxCreate option"
  nColDof :: uint
  nGrSet :: uint
  nugComp :: uint
  ugCmplx :: bool
  tgCmplx :: bool
  tg0Cmplx :: bool

text \<open>
  The \<^verbatim>\<open>throw\<close> statements of a routine in program order, each with the
  condition under which it is executed: the first one whose condition holds ends
  the routine.
\<close>

definition first_throw :: "(bool \<times> error) list \<Rightarrow> error option" where
  "first_throw cs = map_option snd (find fst cs)"

text \<open>\<^verbatim>\<open>for (unsigned int i=a; i<n; i++)\<close>\<close>

definition from_uint :: "nat \<Rightarrow> uint \<Rightarrow> uint list" where
  "from_uint a n = map of_nat [a..<unat n]"

text \<open>
  \<^verbatim>\<open>for (unsigned int i=1; i<n; i++) if (!(x[i-1]<x[i])) throw(...)\<close>
\<close>

definition increasing_throws :: "string \<Rightarrow> 'a::ord darr \<Rightarrow> uint \<Rightarrow> (bool \<times> error) list" where
  "increasing_throws name x n = map (\<lambda>i. (\<not> (x (i-1) < x i), MustBeIncreasing name)) (from_uint 1 n)"

text \<open>The four tests on \<^verbatim>\<open>L\<close>, \<^verbatim>\<open>ky\<close> and \<^verbatim>\<open>nmax\<close> of a periodic problem.\<close>

definition periodic_throws :: "'a mexargs \<Rightarrow> (bool \<times> error) list" where
  "periodic_throws A =
    (let gp = greenPos A
     in if probPeriodic A
        then
          [(\<not> mxIsNumeric (prhs A (gp+7)), MustBeNumeric ''L''),
           (mxIsSparse (prhs A (gp+7)), MustNotBeSparse ''L''),
           (mxIsComplex (prhs A (gp+7)), MustBeReal ''L''),
           (\<not> (mxGetNumberOfElements (prhs A (gp+7)) = 1), MustBeScalar ''L''),
           (\<not> mxIsNumeric (prhs A (gp+8)), MustBeNumeric ''ky''),
           (mxIsSparse (prhs A (gp+8)), MustNotBeSparse ''ky''),
           (mxIsComplex (prhs A (gp+8)), MustBeReal ''ky''),
           (mxGetNumberOfDimensions (prhs A (gp+8)) > 2 \<or>
              (mxGetM (prhs A (gp+8)) > 1 \<and> mxGetN (prhs A (gp+8)) > 1), MustBeVector ''ky''),
           (\<not> mxIsNumeric (prhs A (gp+9)), MustBeNumeric ''nmax''),
           (mxIsSparse (prhs A (gp+9)), MustNotBeSparse ''nmax''),
           (mxIsComplex (prhs A (gp+9)), MustBeReal ''nmax''),
           (\<not> (mxGetNumberOfElements (prhs A (gp+9)) = 1), MustBeScalar ''nmax'')]
        else [])"

text \<open>The tests on the number of arguments shared by the families that may be periodic.\<close>

definition nrhs_throws :: "'a mexargs \<Rightarrow> (bool \<times> error) list" where
  "nrhs_throws A =
    (if probPeriodic A
     then [(\<not> (nrhs A = 13), WrongNumberOfArguments)]
     else [(nrhs A > greenPos A+7, TooManyArguments),
           (nrhs A < greenPos A+5, NotEnoughArguments)])"

text \<open>
  The leading dimensions \<^verbatim>\<open>MatDim[0]\<close>, \<^verbatim>\<open>MatDim[1]\<close>; \<^verbatim>\<open>nDof\<close> is the 32-bit
  product \<^verbatim>\<open>nColDof*nTotalColl\<close>, widened.
\<close>

definition leading_dims :: "'a mexargs \<Rightarrow> uint \<Rightarrow> ulong list" where
  "leading_dims A ncd =
    (let nDof = (ucast (ncd * nTotalColl A) :: ulong)
     in [if s_arg A = None then nDof else ucast (ms A),
         if s_arg A = None then nDof else ucast (ns A)])"

subsection \<open>User-tabulated Green's functions\<close>

text \<open>The number of Green sets and the trailing dimensions of the output.\<close>

definition user_nugdim :: "'a mexargs \<Rightarrow> uint" where
  "user_nugdim A = ucast (mxGetNumberOfDimensions (prhs A (greenPos A+4)))"

definition user_greenDim :: "'a mexargs \<Rightarrow> uint list" where
  "user_greenDim A =
    (if user_nugdim A > 4
     then map (\<lambda>iDim. ucast (mxGetDimensions (prhs A (greenPos A+4)) iDim)) (from_uint 4 (user_nugdim A))
     else [1])"

definition user_nGrSet :: "'a mexargs \<Rightarrow> uint" where
  "user_nGrSet A =
    (if user_nugdim A > 4
     then fold (\<lambda>iDim g. ucast ((ucast g :: ulong) * mxGetDimensions (prhs A (greenPos A+4)) iDim))
            (from_uint 4 (user_nugdim A)) 1
     else 1)"

definition user_ntgComp :: "'a mexargs \<Rightarrow> uint" where
  "user_ntgComp A =
    (let nug = (ucast (mxGetDimensions (prhs A (greenPos A+4)) 0) :: uint);
         t = ntgComp0 A;
         t = (if nug = 1 then 2 else t);
         t = (if nug = 4 then 6 else t);
         t = (if nug = 5 then 10 else t);
         t = (if nug = 9 then 18 else t)
     in t)"

definition user_nColDof :: "'a mexargs \<Rightarrow> uint" where
  "user_nColDof A =
    (let nug = (ucast (mxGetDimensions (prhs A (greenPos A+4)) 0) :: uint);
         d = nColDof0 A;
         d = (if nug = 1 then 1 else d);
         d = (if nug = 4 then 2 else d);
         d = (if nug = 5 \<and> \<not> probAxi A then 3 else d);
         d = (if nug = 5 \<and> probAxi A then 2 else d);
         d = (if nug = 9 then 3 else d)
     in d)"

text \<open>
  The tests on one of the grids \<^verbatim>\<open>zs\<close>, \<^verbatim>\<open>r\<close>, \<^verbatim>\<open>z\<close>: three on the array, then
  the loop over its first \<^verbatim>\<open>n\<close> elements, \<^verbatim>\<open>n\<close> being the number of elements
  stored in an \<^verbatim>\<open>unsigned int\<close>.
\<close>

definition grid_throws :: "string \<Rightarrow> 'a::ord mxArray \<Rightarrow> (bool \<times> error) list" where
  "grid_throws name a =
    [(\<not> mxIsNumeric a, MustBeNumeric name),
     (mxIsSparse a, MustNotBeSparse name),
     (mxIsEmpty a, MustNotBeEmpty name)] @
    increasing_throws name (mxGetPr a) (ucast (mxGetNumberOfElements a))"

text \<open>The tests on the kernel tables \<^verbatim>\<open>ug\<close>, \<^verbatim>\<open>sg\<close> and \<^verbatim>\<open>sg0\<close>.\<close>

definition table_throws :: "'a mexargs \<Rightarrow> (bool \<times> error) list" where
  "table_throws A =
    (let gp = greenPos A;
         nzs = (ucast (mxGetNumberOfElements (prhs A (gp+1))) :: uint);
         nr = (ucast (mxGetNumberOfElements (prhs A (gp+2))) :: uint);
         nz = (ucast (mxGetNumberOfElements (prhs A (gp+3))) :: uint);
         nugdim = user_nugdim A;
         ugdim = mxGetDimensions (prhs A (gp+4));
         nug = (ucast (ugdim 0) :: uint);
         ntgdim = (ucast (mxGetNumberOfDimensions (prhs A (gp+5))) :: uint);
         tgdim = mxGetDimensions (prhs A (gp+5));
         ntg0dim = (ucast (mxGetNumberOfDimensions (prhs A (gp+6))) :: uint);
         tg0dim = mxGetDimensions (prhs A (gp+6))
     in [(\<not> mxIsNumeric (prhs A (gp+4)), MustBeNumeric ''ug''),
         (mxIsSparse (prhs A (gp+4)), MustNotBeSparse ''ug''),
         (mxIsEmpty (prhs A (gp+4)), MustNotBeEmpty ''ug'')] @
        (if probDim A = 2
         then [(\<not> probAxi A \<and> \<not> (nug = 1 \<or> nug = 4 \<or> nug = 9), BadFirstDimension ''ug''),
               (probAxi A \<and> \<not> (nug = 5), BadFirstDimension ''ug'')]
         else if probDim A = 3
         then [(\<not> (nug = 5), BadFirstDimension ''ug'')]
         else []) @
        [(\<not> ((ucast nzs :: ulong) = (if nugdim > 1 then ugdim 1 else 1)), Incompatible ''ug'' ''zs''),
         (\<not> ((ucast nr :: ulong) = (if nugdim > 2 then ugdim 2 else 1)), Incompatible ''ug'' ''r''),
         (\<not> ((ucast nz :: ulong) = (if nugdim > 3 then ugdim 3 else 1)), Incompatible ''ug'' ''z'')] @
        (if TmatOut A
         then
           [(nrhs A < gp+7, NotEnoughArguments),
            (\<not> mxIsNumeric (prhs A (gp+5)), MustBeNumeric ''sg''),
            (mxIsSparse (prhs A (gp+5)), MustNotBeSparse ''sg''),
            (\<not> (tgdim 0 = ucast (user_ntgComp A)), BadFirstDimension ''sg''),
            (\<not> (nugdim = ntgdim), DimensionsMustAgree ''ug'' ''sg'')] @
           map (\<lambda>iDim. (\<not> (ugdim iDim = tgdim iDim), Incompatible ''ug'' ''sg'')) (from_uint 1 nugdim) @
           [(\<not> mxIsNumeric (prhs A (gp+6)), MustBeNumeric ''sg0''),
            (mxIsSparse (prhs A (gp+6)), MustNotBeSparse ''sg0''),
            (\<not> (tg0dim 0 = ucast (user_ntgComp A)), BadFirstDimension ''sg0''),
            (\<not> (nugdim = ntg0dim), DimensionsMustAgree ''ug'' ''sg0'')] @
           map (\<lambda>iDim. (\<not> (ugdim iDim = tg0dim iDim), Incompatible ''ug'' ''sg0'')) (from_uint 1 nugdim)
         else []))"

text \<open>Every \<^verbatim>\<open>throw\<close> of \<^verbatim>\<open>IntegrateGreenUser\<close> before the first allocation of an output.\<close>

definition user_throws :: "'a::ord mexargs \<Rightarrow> (bool \<times> error) list" where
  "user_throws A =
    nrhs_throws A @
    grid_throws ''zs'' (prhs A (greenPos A+1)) @
    grid_throws ''r'' (prhs A (greenPos A+2)) @
    grid_throws ''z'' (prhs A (greenPos A+3)) @
    table_throws A @
    periodic_throws A"

text \<open>
  \<^verbatim>\<open>IntegrateGreenUser\<close> up to the call of \<^verbatim>\<open>bemmat\<close>.  A failed allocation of
  working storage (\<^verbatim>\<open>Out of memory.\<close>) is not modelled.
\<close>

definition IntegrateGreenUser :: "'a::ord mexargs \<Rightarrow> error + prepared" where
  "IntegrateGreenUser A =
    (case first_throw (user_throws A) of
       Some e \<Rightarrow> Inl e
     | None \<Rightarrow>
        (let gp = greenPos A;
             ugC = mxIsComplex (prhs A (gp+4));
             tgC = (if TmatOut A then mxIsComplex (prhs A (gp+5)) else False);
             tg0C = (if TmatOut A then mxIsComplex (prhs A (gp+6)) else False);
             nWave = (if probPeriodic A then (ucast (mxGetNumberOfElements (prhs A (gp+8))) :: uint) else 0);
             MatDimU = (if UmatOut A = False then [0, 0] else leading_dims A (user_nColDof A))
                        @ map ucast (user_greenDim A)
                        @ (if probPeriodic A then [ucast nWave] else []);
             uCmplx = False;
             uCmplx = (if ugC \<or> probPeriodic A then True else uCmplx);
             tCmplx = False;
             tCmplx = (if tgC \<or> probPeriodic A then True else tCmplx);
             MatDimT = leading_dims A (user_nColDof A)
                        @ map ucast (user_greenDim A)
                        @ (if probPeriodic A then [ucast nWave] else [])
         in Inr \<lparr>plhs0 = \<lparr>dims = MatDimU, mxCOMPLEX = uCmplx\<rparr>,
                 plhs1 = (if TmatOut A then Some \<lparr>dims = MatDimT, mxCOMPLEX = tCmplx\<rparr> else None),
                 nColDof = user_nColDof A,
                 nGrSet = user_nGrSet A,
                 nugComp = ucast (mxGetDimensions (prhs A (gp+4)) 0),
                 ugCmplx = ugC, tgCmplx = tgC, tg0Cmplx = tg0C\<rparr>))"

subsection \<open>The families \<^verbatim>\<open>fsgreenf\<close> and \<^verbatim>\<open>fsgreen3d\<close>\<close>





section \<open>The integration routines\<close>

text \<open>
  The arguments that the integration routines share, and their running state:
  the kernel evaluator's working storage and the output matrices.
\<close>

record bem_args =
  nColl :: uint
  EltCollIndex :: uarr
  nDof :: uint
  nGrSet :: uint
  ugCmplx :: bool
  tgCmplx :: bool
  tg0Cmplx :: bool
  TmatOut :: bool

text \<open>
  The rotated traction kernel and its static part at one quadrature point, as the
  kernel routines leave them in \<^verbatim>\<open>TXiRe\<close>, \<^verbatim>\<open>TXiIm\<close>, \<^verbatim>\<open>TXi0Re\<close>, \<^verbatim>\<open>TXi0Im\<close>.
\<close>

record 'a tkern =
  TXiRe :: "'a darr"
  TXiIm :: "'a darr"
  TXi0Re :: "'a darr"
  TXi0Im :: "'a darr"

record ('a, 'k) run =
  work :: 'k
  out :: "'a mats"

text \<open>
  The nine targets \<^verbatim>\<open>ind0+nDof*(colBeg+c)+rowBeg+r\<close> of a 3 by 3 block, and the
  nine weighted kernel components \<^verbatim>\<open>sumutil*X[b+k]\<close> (\<open>b\<close> is \<^verbatim>\<open>9*iGrSet\<close>), both
  in the order in which the statements are written.
\<close>

definition block9 :: "uint \<Rightarrow> uint \<Rightarrow> uint \<Rightarrow> uint \<Rightarrow> uint list" where
  "block9 ind0 n colBeg rowBeg =
    [ind0+n*(colBeg+0)+rowBeg+0,
     ind0+n*(colBeg+1)+rowBeg+0,
     ind0+n*(colBeg+2)+rowBeg+0,
     ind0+n*(colBeg+0)+rowBeg+1,
     ind0+n*(colBeg+1)+rowBeg+1,
     ind0+n*(colBeg+2)+rowBeg+1,
     ind0+n*(colBeg+0)+rowBeg+2,
     ind0+n*(colBeg+1)+rowBeg+2,
     ind0+n*(colBeg+2)+rowBeg+2]"

definition comps9 :: "'a::times \<Rightarrow> 'a darr \<Rightarrow> uint \<Rightarrow> 'a list" where
  "comps9 sumutil X b =
    [sumutil*X (b+0),
     sumutil*X (b+1),
     sumutil*X (b+2),
     sumutil*X (b+3),
     sumutil*X (b+4),
     sumutil*X (b+5),
     sumutil*X (b+6),
     sumutil*X (b+7),
     sumutil*X (b+8)]"

section \<open>Two-dimensional singular integration\<close>

text \<open>
  The helper \<^verbatim>\<open>sign\<close>.  Comparisons of a \<^verbatim>\<open>double\<close> with zero are the carrier's
  \<open>= 0\<close> and \<open><\<close>; \<^verbatim>\<open>fabs\<close> is the carrier's absolute value.
\<close>

definition sign :: "'a::{zero,one,uminus,ord} \<Rightarrow> 'a" where
  "sign a = (if a = 0 then 1 else (if 0 < a then 1 else - 1))"

text \<open>What \<^verbatim>\<open>eltdef\<close> reports about an element type.\<close>

record eltprops =
  Parent :: uint
  nEltNod :: uint
  nEltColl :: uint
  ShapeTypeN :: uint
  ShapeTypeM :: uint
  EltDim :: uint
  AxiSym :: uint
  Periodic :: uint
  nGauss :: uint
  nEltDiv :: uint
  nGaussSing :: uint
  nEltDivSing :: uint

text \<open>
  What \<^verbatim>\<open>greeneval2d\<close> and \<^verbatim>\<open>greenrotate2d\<close> leave in the buffers that the
  summation reads.
\<close>

record 'a kern2d = "'a tkern" +
  UgrRe :: "'a darr"
  UgrIm :: "'a darr"

text \<open>
  The arguments of \<^verbatim>\<open>bemintsing2d\<close>.  The routines it calls are not part of the
  sources and enter as functions: \<open>eltdef\<close> is what \<^verbatim>\<open>eltdef\<close> returns for the
  element's type, \<open>EltNod\<close> the nodal coordinates gathered through
  \<^verbatim>\<open>BemNodeIndex\<close>, \<open>gausspw1D nEltDiv nGauss\<close> the pair of arrays
  (\<^verbatim>\<open>xi\<close>, \<^verbatim>\<open>H\<close>) filled by \<^verbatim>\<open>gausspw1D\<close>, and so on.  \<open>greeneval2d xiR xiZ Xsgn\<close>
  and \<open>greenrotate2d normal iXi\<close> act on the evaluator's working storage \<open>'k\<close>;
  their remaining arguments do not change during a call.  \<open>xiCart0\<close> is the
  content of the array \<^verbatim>\<open>xiCart\<close> as allocated, \<open>nColDof0\<close> the indeterminate
  value of the variable \<^verbatim>\<open>nColDof\<close> before its assignments.
\<close>

record ('a, 'k) sing2d = bem_args +
  Coll :: "'a darr"
  nugComp :: uint
  eltdef :: eltprops
  EltNod :: "'a darr"
  gausspw1D :: "uint \<Rightarrow> uint \<Rightarrow> 'a darr \<times> 'a darr"
  shapefun :: "uint \<Rightarrow> uint \<Rightarrow> 'a darr \<Rightarrow> 'a darr"
  shapederiv :: "uint \<Rightarrow> uint \<Rightarrow> 'a darr \<Rightarrow> 'a darr"
  shapenatcoord :: "'a darr \<Rightarrow> uint \<Rightarrow> uint \<Rightarrow> 'a darr \<Rightarrow> uint \<Rightarrow> 'a darr"
  jacobian :: "'a darr \<Rightarrow> uint \<Rightarrow> uint \<Rightarrow> 'a darr"
  bemnormal :: "'a darr \<Rightarrow> uint \<Rightarrow> uint \<Rightarrow> 'a darr"
  greeneval2d :: "'a \<Rightarrow> 'a \<Rightarrow> 'a \<Rightarrow> 'k \<Rightarrow> 'k"
  greenrotate2d :: "'a darr \<Rightarrow> uint \<Rightarrow> 'k \<Rightarrow> 'k"
  kern2d :: "'k \<Rightarrow> 'a kern2d"
  xiCart0 :: "'a darr"
  nColDof0 :: uint

text \<open>The number of degrees of freedom per collocation point, three \<^verbatim>\<open>if\<close>s in a row.\<close>

definition nColDof_of :: "uint \<Rightarrow> uint \<Rightarrow> uint" where
  "nColDof_of d0 nug =
    (let d = d0;
         d = (if nug = 1 then 1 else d);
         d = (if nug = 4 then 2 else d);
         d = (if nug = 9 then 3 else d)
     in d)"

definition block1 :: "uint \<Rightarrow> uint \<Rightarrow> uint \<Rightarrow> uint \<Rightarrow> uint list" where
  "block1 ind0 n colBeg rowBeg = [ind0+n*(colBeg+0)+rowBeg+0]"

definition comps1 :: "'a::times \<Rightarrow> 'a darr \<Rightarrow> uint \<Rightarrow> 'a list" where
  "comps1 sumutil X b = [sumutil*X (b+0)]"

definition block4 :: "uint \<Rightarrow> uint \<Rightarrow> uint \<Rightarrow> uint \<Rightarrow> uint list" where
  "block4 ind0 n colBeg rowBeg =
    [ind0+n*(colBeg+0)+rowBeg+0,
     ind0+n*(colBeg+1)+rowBeg+0,
     ind0+n*(colBeg+0)+rowBeg+1,
     ind0+n*(colBeg+1)+rowBeg+1]"

definition comps4 :: "'a::times \<Rightarrow> 'a darr \<Rightarrow> uint \<Rightarrow> 'a list" where
  "comps4 sumutil X b =
    [sumutil*X (b+0),
     sumutil*X (b+1),
     sumutil*X (b+2),
     sumutil*X (b+3)]"

text \<open>
  The three branches \<^verbatim>\<open>nugComp==1\<close>, \<^verbatim>\<open>==4\<close>, \<^verbatim>\<open>==9\<close> of the Green-set loop
  repeat one pattern on blocks of 1, 4 and 9 entries (\<open>blk\<close>, \<open>cmp\<close>), the
  traction buffers being read with stride \<open>d\<close> = 1, 4, 9.  The imaginary part of
  the static kernel is guarded by \<^verbatim>\<open>tg0Cmplx\<close> here.
\<close>

definition sing2d_branch ::
  "('a::{plus,minus,times}, 'k) sing2d
     \<Rightarrow> (uint \<Rightarrow> uint \<Rightarrow> uint \<Rightarrow> uint \<Rightarrow> uint list) \<Rightarrow> ('a \<Rightarrow> 'a darr \<Rightarrow> uint \<Rightarrow> 'a list) \<Rightarrow> uint
     \<Rightarrow> 'a kern2d \<Rightarrow> 'a \<Rightarrow> uint \<Rightarrow> uint \<Rightarrow> uint \<Rightarrow> 'a mats \<Rightarrow> 'a mats" where
  "sing2d_branch I blk cmp d k sumutil rowBeg colBeg iGrSet m =
    (let ind0 = nDof I * nDof I * iGrSet;
         m = m\<lparr>URe := add_to (URe m)
               (zip (blk ind0 (nDof I) colBeg rowBeg) (cmp sumutil (UgrRe k) (nugComp I*iGrSet)))\<rparr>;
         m = (if ugCmplx I
              then m\<lparr>UIm := add_to (UIm m)
                     (zip (blk ind0 (nDof I) colBeg rowBeg) (cmp sumutil (UgrIm k) (nugComp I*iGrSet)))\<rparr>
              else m)
     in if TmatOut I
        then
          (let m = m\<lparr>TRe := add_to (TRe m)
                     (zip (blk ind0 (nDof I) colBeg rowBeg) (cmp sumutil (TXiRe k) (d*iGrSet)))\<rparr>;
               m = (if tgCmplx I
                    then m\<lparr>TIm := add_to (TIm m)
                           (zip (blk ind0 (nDof I) colBeg rowBeg) (cmp sumutil (TXiIm k) (d*iGrSet)))\<rparr>
                    else m);
               m = m\<lparr>TRe := sub_from (TRe m)
                     (zip (blk ind0 (nDof I) rowBeg rowBeg) (cmp sumutil (TXi0Re k) (d*iGrSet)))\<rparr>
           in if tg0Cmplx I
              then m\<lparr>TIm := sub_from (TIm m)
                     (zip (blk ind0 (nDof I) rowBeg rowBeg) (cmp sumutil (TXi0Im k) (d*iGrSet)))\<rparr>
              else m)
        else m)"

definition sing2d_greenset ::
  "('a::{plus,minus,times}, 'k) sing2d \<Rightarrow> 'a kern2d \<Rightarrow> 'a \<Rightarrow> uint \<Rightarrow> uint \<Rightarrow> uint
     \<Rightarrow> 'a mats \<Rightarrow> 'a mats" where
  "sing2d_greenset I k sumutil rowBeg colBeg iGrSet m =
    (if nugComp I = 1 then sing2d_branch I block1 comps1 1 k sumutil rowBeg colBeg iGrSet m
     else if nugComp I = 4 then sing2d_branch I block4 comps4 4 k sumutil rowBeg colBeg iGrSet m
     else if nugComp I = 9 then sing2d_branch I block9 comps9 9 k sumutil rowBeg colBeg iGrSet m
     else m)"

text \<open>
  The geometry of the element at the sample points of the singular rule, as
  computed before the main loop.
\<close>

record 'a geom2d =
  nXi :: uint
  H :: "'a darr"
  M :: "'a darr"
  Jac :: "'a darr"
  normal :: "'a darr"
  xiCart :: "'a darr"

text \<open>
  \<^verbatim>\<open>xiCart\<close> is zeroed and then accumulated from the shape functions and the
  x- and z-coordinates of the element nodes.
\<close>

definition xiCart_of :: "('a::{zero,plus,times}, 'k) sing2d \<Rightarrow> uint \<Rightarrow> 'a darr \<Rightarrow> 'a darr" where
  "xiCart_of I nX N =
    (let nEN = nEltNod (eltdef I);
         X = fold (\<lambda>icomp X. X(icomp := 0)) (upto_uint (2*nX)) (xiCart0 I)
     in fold (\<lambda>iXi X.
          fold (\<lambda>iEltNod X.
            (let X = X(2*iXi+0 := X (2*iXi+0) + N (nEN*iXi+iEltNod) * EltNod I (0*nEN+iEltNod))
             in X(2*iXi+1 := X (2*iXi+1) + N (nEN*iXi+iEltNod) * EltNod I (2*nEN+iEltNod))))
          (upto_uint nEN) X)
        (upto_uint nX) X)"

definition geom2d_of :: "('a::{zero,plus,times}, 'k) sing2d \<Rightarrow> 'a geom2d" where
  "geom2d_of I =
    (let et = eltdef I;
         nX = nEltDivSing et * nGaussSing et;
         (xi, Hq) = gausspw1D I (nEltDivSing et) (nGaussSing et);
         N = shapefun I (ShapeTypeN et) nX xi;
         Mq = shapefun I (ShapeTypeM et) nX xi;
         dN = shapederiv I (ShapeTypeN et) nX xi;
         nat = shapenatcoord I dN (nEltNod et) nX (EltNod I) (EltDim et)
     in \<lparr>nXi = nX, H = Hq, M = Mq,
         Jac = jacobian I nat nX (EltDim et),
         normal = bemnormal I nat nX (EltDim et),
         xiCart = xiCart_of I nX N\<rparr>)"

text \<open>
  The offsets of a sample point from the collocation point: the radial offset
  \<^verbatim>\<open>xiR\<close>, the vertical offset \<^verbatim>\<open>xiZ\<close> and the sign \<^verbatim>\<open>Xsgn\<close>.
\<close>

definition offsets2d ::
  "('a::{zero,one,uminus,minus,abs,ord}, 'k) sing2d \<Rightarrow> 'a geom2d \<Rightarrow> uint \<Rightarrow> uint
     \<Rightarrow> 'a \<times> 'a \<times> 'a" where
  "offsets2d I G iColl iXi =
    (let Xdiff = xiCart G (2*iXi+0) - Coll I (2*nColl I+iColl);
         Zdiff = xiCart G (2*iXi+1) - Coll I (4*nColl I+iColl);
         xiR = \<bar>Xdiff\<bar>;
         xiZ = Zdiff;
         Xsgn = sign Xdiff
     in (xiR, xiZ, Xsgn))"

text \<open>\<^verbatim>\<open>double sumutil=H[iXi]*M[nEltColl*iXi+iEltColl]*Jac[iXi];\<close>\<close>

definition sumutil2d :: "('a::times, 'k) sing2d \<Rightarrow> 'a geom2d \<Rightarrow> uint \<Rightarrow> uint \<Rightarrow> 'a" where
  "sumutil2d I G iXi iEltColl = H G iXi * M G (nEltColl (eltdef I)*iXi+iEltColl) * Jac G iXi"

text \<open>Body of the loop over the element's collocation points.\<close>

definition sing2d_eltcoll ::
  "('a::{plus,minus,times}, 'k) sing2d \<Rightarrow> 'a geom2d \<Rightarrow> 'a kern2d \<Rightarrow> uint \<Rightarrow> uint \<Rightarrow> uint
     \<Rightarrow> 'a mats \<Rightarrow> 'a mats" where
  "sing2d_eltcoll I G k iColl iXi iEltColl m =
    (let sumutil = sumutil2d I G iXi iEltColl;
         rowBeg = nColDof_of (nColDof0 I) (nugComp I) * iColl;
         colBeg = nColDof_of (nColDof0 I) (nugComp I) * EltCollIndex I iEltColl
     in fold (sing2d_greenset I k sumutil rowBeg colBeg) (upto_uint (nGrSet I)) m)"

text \<open>Body of the loop over the sample points.\<close>

definition sing2d_point ::
  "('a::{zero,one,uminus,plus,minus,times,abs,ord}, 'k) sing2d \<Rightarrow> 'a geom2d \<Rightarrow> uint \<Rightarrow> uint
     \<Rightarrow> ('a, 'k) run \<Rightarrow> error + ('a, 'k) run" where
  "sing2d_point I G iColl iXi s =
    (case offsets2d I G iColl iXi of (xiR, xiZ, Xsgn) \<Rightarrow>
      if xiR = 0 \<and> xiZ = 0 then Inl CoincidentPoint
      else
        (let w = greeneval2d I xiR xiZ Xsgn (work s);
             w = greenrotate2d I (normal G) iXi w
         in Inr (s\<lparr>work := w,
                   out := fold (sing2d_eltcoll I G (kern2d I w) iColl iXi)
                            (upto_uint (nEltColl (eltdef I))) (out s)\<rparr>)))"

text \<open>
  \<^verbatim>\<open>bemintsing2d\<close> for collocation point \<open>iColl\<close>: \<open>w\<close> is the evaluator's
  freshly initialised working storage, \<open>m\<close> the matrices on entry.  What the routine leaves behind is an error or
  the matrices.
\<close>

definition bemintsing2d ::
  "('a::{zero,one,uminus,plus,minus,times,abs,ord}, 'k) sing2d \<Rightarrow> uint \<Rightarrow> 'k \<Rightarrow> 'a mats
     \<Rightarrow> error + 'a mats" where
  "bemintsing2d I iColl w m =
    (let G = geom2d_of I
     in case loop_throw (sing2d_point I G iColl) (upto_uint (nXi G)) \<lparr>work = w, out = m\<rparr> of
          Inl e \<Rightarrow> Inl e
        | Inr s \<Rightarrow> Inr (out s))"

section \<open>Three-dimensional regular integration with diagonal steering\<close>

text \<open>
  What \<^verbatim>\<open>greeneval3d\<close> followed by \<^verbatim>\<open>greenrotate3d\<close> leaves in the rotated
  kernel buffers at one quadrature point.
\<close>

record 'a kern3d = "'a tkern" +
  UXiRe :: "'a darr"
  UXiIm :: "'a darr"

text \<open>
  The arguments of \<^verbatim>\<open>bemintreg3ddiag\<close> that its summation loops read.  The
  routines \<^verbatim>\<open>jacobian\<close>, \<^verbatim>\<open>greeneval3d\<close> and \<^verbatim>\<open>greenrotate3d\<close> are not part of
  the sources, so their results enter as data: \<open>Jac\<close> is the array written by
  \<^verbatim>\<open>jacobian\<close>; \<open>green3d iColl iXi\<close> stands for the offset computation and the
  two kernel calls at quadrature point \<open>iXi\<close> for collocation point \<open>iColl\<close>,
  acting on the evaluator's working storage \<open>'k\<close> (interpolation brackets and
  kernel buffers), of which \<open>kern\<close> reads the rotated buffers.
  \<open>Nuniquescolli\<close> is \<^verbatim>\<open>Nuniquescolli[0]\<close>.
\<close>

record ('a, 'k) reg3d = bem_args +
  RegularColl :: uarr
  spassed :: bool
  ms :: uint
  ns :: uint
  scompi :: uarr
  uniquescolli :: uarr
  Nuniquescolli :: uint
  nuniquescolli :: uarr
  uniquescolliind :: uarr
  scollj :: uarr
  scompj :: uarr
  InListuniquecollj :: barr
  inddiag :: uarr
  blockdiag :: barr
  iElt :: uint
  nEltColl :: uarr
  nXi :: uint
  H :: "'a darr"
  M :: "'a darr"
  Jac :: "'a darr"
  green3d :: "uint \<Rightarrow> uint \<Rightarrow> 'k \<Rightarrow> 'k"
  kern :: "'k \<Rightarrow> 'a kern3d"

text \<open>The nine targets \<^verbatim>\<open>ind0+inddiag[9*iuniquescolli+k]\<close> of the block-diagonal branch.\<close>

definition slots9 :: "uint \<Rightarrow> uarr \<Rightarrow> uint \<Rightarrow> uint list" where
  "slots9 ind0 idg iu =
    [ind0+idg (9*iu+0),
     ind0+idg (9*iu+1),
     ind0+idg (9*iu+2),
     ind0+idg (9*iu+3),
     ind0+idg (9*iu+4),
     ind0+idg (9*iu+5),
     ind0+idg (9*iu+6),
     ind0+idg (9*iu+7),
     ind0+idg (9*iu+8)]"

text \<open>\<^verbatim>\<open>double sumutil=H[iXi]*M[nEltColl[iElt]*iXi+iEltColl]*Jac[iXi];\<close>\<close>

definition sumutil3d :: "('a::times, 'k) reg3d \<Rightarrow> uint \<Rightarrow> uint \<Rightarrow> 'a" where
  "sumutil3d I iXi iEltColl = H I iXi * M I (nEltColl I (iElt I) * iXi + iEltColl) * Jac I iXi"

text \<open>
  Body of the Green-set loop when no selection is passed (all collocation points):
  U and T receive the rotated kernels at (row block, column block); with traction
  output the static kernel is taken off the diagonal block (row block, row block).
\<close>

definition dense_greenset ::
  "('a::{plus,minus,times}, 'k) reg3d \<Rightarrow> 'a kern3d \<Rightarrow> 'a \<Rightarrow> uint \<Rightarrow> uint \<Rightarrow> uint
     \<Rightarrow> 'a mats \<Rightarrow> 'a mats" where
  "dense_greenset I k sumutil rowBeg colBeg iGrSet m =
    (let ind0 = nDof I * nDof I * iGrSet;
         m = m\<lparr>URe := add_to (URe m)
               (zip (block9 ind0 (nDof I) colBeg rowBeg) (comps9 sumutil (UXiRe k) (9*iGrSet)))\<rparr>;
         m = (if ugCmplx I
              then m\<lparr>UIm := add_to (UIm m)
                     (zip (block9 ind0 (nDof I) colBeg rowBeg) (comps9 sumutil (UXiIm k) (9*iGrSet)))\<rparr>
              else m)
     in if TmatOut I
        then
          (let m = m\<lparr>TRe := add_to (TRe m)
                     (zip (block9 ind0 (nDof I) colBeg rowBeg) (comps9 sumutil (TXiRe k) (9*iGrSet)))\<rparr>;
               m = (if tgCmplx I
                    then m\<lparr>TIm := add_to (TIm m)
                           (zip (block9 ind0 (nDof I) colBeg rowBeg) (comps9 sumutil (TXiIm k) (9*iGrSet)))\<rparr>
                    else m);
               m = m\<lparr>TRe := sub_from (TRe m)
                     (zip (block9 ind0 (nDof I) rowBeg rowBeg) (comps9 sumutil (TXi0Re k) (9*iGrSet)))\<rparr>
           in if tgCmplx I
              then m\<lparr>TIm := sub_from (TIm m)
                     (zip (block9 ind0 (nDof I) rowBeg rowBeg) (comps9 sumutil (TXi0Im k) (9*iGrSet)))\<rparr>
              else m)
        else m)"

text \<open>
  Body of the Green-set loop in the \<^verbatim>\<open>blockdiag[iuniquescolli]\<close> branch: nine
  statements on \<^verbatim>\<open>TRe\<close>, nine on \<^verbatim>\<open>TIm\<close> for a complex traction kernel, none of
  them behind a test of the slot.
\<close>

definition diag_greenset ::
  "('a::{plus,minus,times}, 'k) reg3d \<Rightarrow> 'a kern3d \<Rightarrow> 'a \<Rightarrow> uint \<Rightarrow> uint
     \<Rightarrow> 'a mats \<Rightarrow> 'a mats" where
  "diag_greenset I k sumutil iu iGrSet m =
    (let ind0 = ms I * ns I * iGrSet;
         m = m\<lparr>TRe := sub_from (TRe m)
               (zip (slots9 ind0 (inddiag I) iu) (comps9 sumutil (TXi0Re k) (9*iGrSet)))\<rparr>
     in if tgCmplx I
        then m\<lparr>TIm := sub_from (TIm m)
               (zip (slots9 ind0 (inddiag I) iu) (comps9 sumutil (TXi0Im k) (9*iGrSet)))\<rparr>
        else m)"

text \<open>
  Body of the Green-set loop in the other branch, for the selected entry \<open>e\<close>
  (\<^verbatim>\<open>uniquescolliind[nuniquescollicumul+iuniquescolliind]\<close>): one component, written
  only if its slot is not the sentinel.
\<close>

definition sel_greenset ::
  "('a::{plus,minus,times}, 'k) reg3d \<Rightarrow> 'a kern3d \<Rightarrow> 'a \<Rightarrow> uint \<Rightarrow> uint \<Rightarrow> uint
     \<Rightarrow> 'a mats \<Rightarrow> 'a mats" where
  "sel_greenset I k sumutil iu e iGrSet m =
    (let ind0 = ms I * ns I * iGrSet
     in if inddiag I (9*iu+3*scompi I e+scompj I e) \<noteq> - 1
        then
          (let m = m\<lparr>TRe := sub_from (TRe m)
                     [(ind0+inddiag I (9*iu+3*scompi I e+scompj I e),
                       sumutil*TXi0Re k (9*iGrSet+3*scompi I e+scompj I e))]\<rparr>
           in if tgCmplx I
              then m\<lparr>TIm := sub_from (TIm m)
                     [(ind0+inddiag I (9*iu+3*scompi I e+scompj I e),
                       sumutil*TXi0Im k (9*iGrSet+3*scompi I e+scompj I e))]\<rparr>
              else m)
        else m)"

text \<open>
  Body of the loop over the element's collocation points in subset mode;
  \<open>cumul\<close> is \<^verbatim>\<open>nuniquescollicumul\<close>.  The progress message printed in the second
  branch leaves no trace in the matrices and is not modelled.
\<close>

definition subset_eltcoll ::
  "('a::{plus,minus,times}, 'k) reg3d \<Rightarrow> 'a kern3d \<Rightarrow> uint \<Rightarrow> uint \<Rightarrow> uint \<Rightarrow> uint
     \<Rightarrow> 'a mats \<Rightarrow> 'a mats" where
  "subset_eltcoll I k cumul iu iXi iEltColl m =
    (if blockdiag I iu
     then fold (diag_greenset I k (sumutil3d I iXi iEltColl) iu) (upto_uint (nGrSet I)) m
     else if InListuniquecollj I (EltCollIndex I iEltColl)
     then fold (\<lambda>iuniquescolliind m.
            if scollj I (uniquescolliind I (cumul+iuniquescolliind)) = EltCollIndex I iEltColl
            then fold (sel_greenset I k (sumutil3d I iXi iEltColl) iu
                        (uniquescolliind I (cumul+iuniquescolliind)))
                   (upto_uint (nGrSet I)) m
            else m)
          (upto_uint (nuniquescolli I iu)) m
     else m)"

text \<open>Body of the loop over the element's collocation points in dense mode.\<close>

definition dense_eltcoll ::
  "('a::{plus,minus,times}, 'k) reg3d \<Rightarrow> 'a kern3d \<Rightarrow> uint \<Rightarrow> uint \<Rightarrow> uint
     \<Rightarrow> 'a mats \<Rightarrow> 'a mats" where
  "dense_eltcoll I k iColl iXi iEltColl m =
    fold (dense_greenset I k (sumutil3d I iXi iEltColl) (3*iColl) (3*EltCollIndex I iEltColl))
      (upto_uint (nGrSet I)) m"

text \<open>In subset mode the running state also holds \<^verbatim>\<open>nuniquescollicumul\<close>.\<close>

record ('a, 'k) run3d = "('a, 'k) run" +
  cumul :: uint

definition quad_point ::
  "('a::{plus,minus,times}, 'k) reg3d \<Rightarrow> uint
     \<Rightarrow> ('a kern3d \<Rightarrow> uint \<Rightarrow> uint \<Rightarrow> 'a mats \<Rightarrow> 'a mats)
     \<Rightarrow> uint \<Rightarrow> ('a, 'k, 'z) run_scheme \<Rightarrow> ('a, 'k, 'z) run_scheme" where
  "quad_point I iColl body iXi s =
    (let w = green3d I iColl iXi (work s)
     in s\<lparr>work := w,
           out := fold (body (kern I w) iXi) (upto_uint (nEltColl I (iElt I))) (out s)\<rparr>)"

definition subset_point :: "('a::{plus,minus,times}, 'k) reg3d \<Rightarrow> uint
     \<Rightarrow> ('a, 'k) run3d \<Rightarrow> ('a, 'k) run3d" where
  "subset_point I iu s =
    (let s = (if RegularColl I (uniquescolli I iu) = 1
              then fold (quad_point I (uniquescolli I iu)
                          (\<lambda>k. subset_eltcoll I k (cumul s) iu))
                     (upto_uint (nXi I)) s
              else s)
     in s\<lparr>cumul := cumul s + nuniquescolli I iu\<rparr>)"

definition dense_point :: "('a::{plus,minus,times}, 'k) reg3d \<Rightarrow> uint
     \<Rightarrow> ('a, 'k) run \<Rightarrow> ('a, 'k) run" where
  "dense_point I iColl s =
    (if RegularColl I iColl = 1
     then fold (quad_point I iColl (\<lambda>k. dense_eltcoll I k iColl)) (upto_uint (nXi I)) s
     else s)"

text \<open>
  \<^verbatim>\<open>bemintreg3ddiag\<close>, from the initialisation of the interpolation state on:
  \<open>w\<close> is the evaluator's freshly initialised working storage, \<open>m\<close> the
  matrices as they are on entry.
\<close>

definition bemintreg3ddiag ::
  "('a::{plus,minus,times}, 'k) reg3d \<Rightarrow> 'k \<Rightarrow> 'a mats \<Rightarrow> 'a mats" where
  "bemintreg3ddiag I w m =
    (if spassed I
     then out (fold (subset_point I) (upto_uint (Nuniquescolli I))
                 \<lparr>work = w, out = m, cumul = 0\<rparr>)
     else out (fold (dense_point I) (upto_uint (nColl I)) \<lparr>work = w, out = m\<rparr>))"

section \<open>Notions of the specification\<close>


text \<open>
  A grid is strictly increasing when each of its first \<open>n\<close> elements is less than
  the next one.
\<close>

definition increasing_grid :: "'a::ord darr \<Rightarrow> uint \<Rightarrow> bool" where
  "increasing_grid x n = list_all (\<lambda>i. x (i-1) < x i) (from_uint 1 n)"

text \<open>
  An evaluator that does nothing but record the arguments of each call, and a
  rotation that does nothing: with them in place of \<^verbatim>\<open>greeneval2d\<close> and
  \<^verbatim>\<open>greenrotate2d\<close> the working storage is the list of the calls made.
\<close>

definition record_call :: "'a \<Rightarrow> 'a \<Rightarrow> 'a \<Rightarrow> ('a \<times> 'a \<times> 'a) list \<Rightarrow> ('a \<times> 'a \<times> 'a) list" where
  "record_call xiR xiZ Xsgn calls = calls @ [(xiR, xiZ, Xsgn)]"

definition no_rotation :: "'a darr \<Rightarrow> uint \<Rightarrow> 'k \<Rightarrow> 'k" where
  "no_rotation nrm iXi w = w"


section \<open>Sample data\<close>

text \<open>
  A mesh with two collocation points (six degrees of freedom) and an element with
  one collocation point and one quadrature point; two Green sets; all weights 1
  and constant kernels.  In subset mode the selection has 4 by 4 entries and the
  diagonal block of point 0 occupies its upper left 3 by 3 corner.
\<close>

definition demo_kern3d :: "int kern3d" where
  "demo_kern3d =
    \<lparr>TXiRe = (\<lambda>_. 2), TXiIm = (\<lambda>_. 0), TXi0Re = (\<lambda>_. 1), TXi0Im = (\<lambda>_. 0),
     UXiRe = (\<lambda>_. 3), UXiIm = (\<lambda>_. 0)\<rparr>"

definition demo_reg3d :: "(int, int kern3d) reg3d" where
  "demo_reg3d =
    \<lparr>nColl = 2, EltCollIndex = (\<lambda>_. 1), nDof = 6, nGrSet = 2,
     ugCmplx = False, tgCmplx = False, tg0Cmplx = False, TmatOut = True,
     RegularColl = (\<lambda>i. if i = 0 then 1 else 0), spassed = True, ms = 4, ns = 4,
     scompi = (\<lambda>_. 0), uniquescolli = (\<lambda>_. 0), Nuniquescolli = 1, nuniquescolli = (\<lambda>_. 0),
     uniquescolliind = (\<lambda>_. 0), scollj = (\<lambda>_. 0), scompj = (\<lambda>_. 0),
     InListuniquecollj = (\<lambda>_. False),
     inddiag = (\<lambda>q. if q = 0 then 0 else if q = 1 then 4 else if q = 2 then 8
                else if q = 3 then 1 else if q = 4 then 5 else if q = 5 then 9
                else if q = 6 then 2 else if q = 7 then 6 else if q = 8 then 10 else - 1),
     blockdiag = (\<lambda>_. True), iElt = 0, nEltColl = (\<lambda>_. 1), nXi = 1,
     H = (\<lambda>_. 1), M = (\<lambda>_. 1), Jac = (\<lambda>_. 1),
     green3d = (\<lambda>_ _ k. k), kern = (\<lambda>k. k)\<rparr>"

definition zero_mats :: "int mats" where
  "zero_mats = \<lparr>URe = (\<lambda>_. 0), UIm = (\<lambda>_. 0), TRe = (\<lambda>_. 0), TIm = (\<lambda>_. 0)\<rparr>"

text \<open>The same input with the first slot of the block marked as not present.\<close>

definition bad_reg3d :: "(int, int kern3d) reg3d" where
  "bad_reg3d = demo_reg3d\<lparr>inddiag := (\<lambda>q. if q = 0 then - 1 else inddiag demo_reg3d q)\<rparr>"

text \<open>
  The same mesh with a selection whose entries for point 0 are the components
  (0,0), not present on the diagonal, and (1,2); no block is complete.
\<close>

definition sparse_reg3d :: "(int, int kern3d) reg3d" where
  "sparse_reg3d =
    bad_reg3d\<lparr>blockdiag := (\<lambda>_. False), InListuniquecollj := (\<lambda>_. True),
      nuniquescolli := (\<lambda>_. 2), uniquescolliind := (\<lambda>i. i), scollj := (\<lambda>_. 1),
      scompi := (\<lambda>e. if e = 0 then 0 else 1), scompj := (\<lambda>e. if e = 0 then 0 else 2)\<rparr>"

text \<open>
  A two-node line element with two sample points, at (2, 0) and (5, 7), and a
  collocation point at (5, 0): the second sample point lies straight above it.
  The evaluator records its calls.
\<close>

definition demo_kern2d :: "int kern2d" where
  "demo_kern2d =
    \<lparr>TXiRe = (\<lambda>_. 2), TXiIm = (\<lambda>_. 0), TXi0Re = (\<lambda>_. 1), TXi0Im = (\<lambda>_. 0),
     UgrRe = (\<lambda>_. 3), UgrIm = (\<lambda>_. 0)\<rparr>"

definition demo_sing2d :: "(int, (int \<times> int \<times> int) list) sing2d" where
  "demo_sing2d =
    \<lparr>nColl = 1, EltCollIndex = (\<lambda>_. 0), nDof = 1, nGrSet = 1,
     ugCmplx = False, tgCmplx = False, tg0Cmplx = False, TmatOut = True,
     Coll = (\<lambda>i. if i = 2 then 5 else 0),
     nugComp = 1,
     eltdef = \<lparr>Parent = 0, nEltNod = 2, nEltColl = 1, ShapeTypeN = 0, ShapeTypeM = 0,
               EltDim = 1, AxiSym = 0, Periodic = 0, nGauss = 5, nEltDiv = 7,
               nGaussSing = 2, nEltDivSing = 1\<rparr>,
     EltNod = (\<lambda>i. if i = 0 then 2 else if i = 1 then 5 else if i = 5 then 7 else 0),
     gausspw1D = (\<lambda>_ _. (\<lambda>_. 0, \<lambda>_. 1)),
     shapefun = (\<lambda>_ _ _. (\<lambda>q. if q = 0 \<or> q = 3 then 1 else 0)),
     shapederiv = (\<lambda>_ _ _. (\<lambda>_. 0)),
     shapenatcoord = (\<lambda>_ _ _ _ _. (\<lambda>_. 0)),
     jacobian = (\<lambda>_ _ _. (\<lambda>_. 1)),
     bemnormal = (\<lambda>_ _ _. (\<lambda>_. 0)),
     greeneval2d = record_call,
     greenrotate2d = no_rotation,
     kern2d = (\<lambda>_. demo_kern2d),
     xiCart0 = (\<lambda>_. 99),
     nColDof0 = 0\<rparr>"

text \<open>The same element with the collocation point at (5, 7), on the second sample point.\<close>

definition coincident_sing2d :: "(int, (int \<times> int \<times> int) list) sing2d" where
  "coincident_sing2d = demo_sing2d\<lparr>Coll := (\<lambda>i. if i = 2 then 5 else if i = 4 then 7 else 0)\<rparr>"

text \<open>
  Input arrays of the gateway: a full numeric array with the given dimensions,
  complexity flag and data.
\<close>

definition demo_array :: "ulong list \<Rightarrow> bool \<Rightarrow> int darr \<Rightarrow> int mxArray" where
  "demo_array ds cplx x =
    \<lparr>mxIsNumeric = True, mxIsSparse = False, mxIsEmpty = (prod_list ds = 0), mxIsComplex = cplx,
     mxGetNumberOfElements = prod_list ds, mxGetNumberOfDimensions = of_nat (length ds),
     mxGetDimensions = (\<lambda>i. if unat i < length ds then ds ! unat i else 0),
     mxGetM = hd ds, mxGetN = prod_list (tl ds), mxGetPr = x\<rparr>"

text \<open>
  A call \<^verbatim>\<open>[U,T] = bemmat(nod,elt,typ,'user',zs,r,z,ug,sg,sg0)\<close> for a
  three-dimensional mesh with two collocation points: two source depths, three
  receiver distances, one receiver depth, a complex \<^verbatim>\<open>ug\<close> and real \<^verbatim>\<open>sg\<close>,
  \<^verbatim>\<open>sg0\<close>.
\<close>

definition demo_user :: "int mexargs" where
  "demo_user =
    \<lparr>nrhs = 10,
     prhs = (\<lambda>i. if i = 4 then demo_array [2, 1] False (\<lambda>i. if i = 0 then 0 else 1)
                 else if i = 5 then demo_array [3, 1] False (\<lambda>i. if i = 0 then 0 else if i = 1 then 1 else 2)
                 else if i = 6 then demo_array [1, 1] False (\<lambda>_. 0)
                 else if i = 7 then demo_array [5, 2, 3, 1] True (\<lambda>_. 0)
                 else if i = 8 then demo_array [10, 2, 3, 1] False (\<lambda>_. 0)
                 else if i = 9 then demo_array [10, 2, 3, 1] False (\<lambda>_. 0)
                 else demo_array [0, 0] False (\<lambda>_. 0)),
     probAxi = False, probPeriodic = False, probDim = 3, nTotalColl = 2,
     UmatOut = True, TmatOut = True, greenPos = 3, s_arg = None, ms = 0, ns = 0,
     ntgComp0 = 0, nColDof0 = 0\<rparr>"

text \<open>The same call with two equal source depths.\<close>

definition bad_user :: "int mexargs" where
  "bad_user =
    demo_user\<lparr>prhs := (\<lambda>i. if i = 4 then demo_array [2, 1] False (\<lambda>_. 0) else prhs demo_user i)\<rparr>"




text \<open>What the set-up routines are expected to have created for these calls.\<close>

definition demo_user_prepared :: prepared where
  "demo_user_prepared =
    \<lparr>plhs0 = \<lparr>dims = [6, 6, 1], mxCOMPLEX = True\<rparr>,
     plhs1 = Some \<lparr>dims = [6, 6, 1], mxCOMPLEX = False\<rparr>,
     nColDof = 3, nGrSet = 1, nugComp = 5, ugCmplx = True, tgCmplx = False, tg0Cmplx = False\<rparr>"




section \<open>Properties\<close>

subsection \<open>Loops and in-place updates\<close>

lemma fold_invariant:
  assumes "P s" and "\<And>x s. x \<in> set xs \<Longrightarrow> P s \<Longrightarrow> P (f x s)"
  shows "P (fold f xs s)"
  using assms by (induction xs arbitrary: s) auto


lemma sub_from_frame: "i \<notin> fst ` set ws \<Longrightarrow> sub_from A ws i = A i"
  unfolding sub_from_def by (induction ws arbitrary: A) (auto split: prod.splits)



subsection \<open>Blocks of targets\<close>















lemma zip_slots9_map_fst: "map fst (zip (slots9 i idg iu) (comps9 w X b)) = slots9 i idg iu"
  by (simp add: slots9_def comps9_def)

lemma zip_slots9_fst: "fst ` set (zip (slots9 i idg iu) (comps9 w X b)) = set (slots9 i idg iu)"
  by (metis zip_slots9_map_fst set_map)

lemma slots9_map: "slots9 i idg iu = map (\<lambda>c. i + idg (9*iu + c)) (upto_uint 9)"
  by (simp add: slots9_def upto_uint_def upt_conv_Cons)





subsection \<open>What one pass of a Green-set loop does to a matrix\<close>








subsection \<open>Subset mode leaves the displacement matrix alone\<close>

lemma diag_greenset_U:
  "URe (diag_greenset I k w iu g m) = URe m \<and> UIm (diag_greenset I k w iu g m) = UIm m"
  by (simp add: diag_greenset_def Let_def)

lemma sel_greenset_U:
  "URe (sel_greenset I k w iu e g m) = URe m \<and> UIm (sel_greenset I k w iu e g m) = UIm m"
  by (simp add: sel_greenset_def Let_def)

lemma subset_eltcoll_U:
  "URe (subset_eltcoll I k c iu iXi iEltColl m) = URe m \<and>
   UIm (subset_eltcoll I k c iu iXi iEltColl m) = UIm m"
proof -
  let ?P = "\<lambda>x. URe x = URe m \<and> UIm x = UIm m"
  have a: "?P (fold (diag_greenset I k w iu) gs m)" for w gs
    by (rule fold_invariant [where P = ?P]) (simp_all add: diag_greenset_U)
  have b: "?P x \<Longrightarrow> ?P (fold (sel_greenset I k w iu e) gs x)" for w gs e x
    by (rule fold_invariant [where P = ?P]) (simp_all add: sel_greenset_U)
  have c: "?P (fold (\<lambda>i x.
            if scollj I (uniquescolliind I (c + i)) = EltCollIndex I iEltColl
            then fold (sel_greenset I k w iu (uniquescolliind I (c + i))) gs x else x) js m)"
    for w gs js
    by (rule fold_invariant [where P = ?P]) (use b in auto)
  show ?thesis unfolding subset_eltcoll_def using a c by simp
qed

lemma subset_quad_point_U:
  "URe (out (quad_point I p (\<lambda>k. subset_eltcoll I k c iu) iXi s)) = URe (out s) \<and>
   UIm (out (quad_point I p (\<lambda>k. subset_eltcoll I k c iu) iXi s)) = UIm (out s)"
proof -
  let ?P = "\<lambda>x. URe x = URe (out s) \<and> UIm x = UIm (out s)"
  have "?P (fold (subset_eltcoll I k c iu iXi) es (out s))" for k es
    by (rule fold_invariant [where P = ?P]) (simp_all add: subset_eltcoll_U)
  then show ?thesis by (simp add: quad_point_def Let_def)
qed

lemma subset_point_U:
  "URe (out (subset_point I iu s)) = URe (out s) \<and> UIm (out (subset_point I iu s)) = UIm (out s)"
proof -
  let ?P = "\<lambda>x. URe (out x) = URe (out s) \<and> UIm (out x) = UIm (out s)"
  have "?P (fold (quad_point I c (\<lambda>k. subset_eltcoll I k d iu)) xs s)" for c d xs
    by (rule fold_invariant [where P = ?P]) (simp_all add: subset_quad_point_U)
  then show ?thesis by (simp add: subset_point_def Let_def)
qed

text \<open>
  Claim C9.  When a selection is passed (\<^verbatim>\<open>spassed\<close>), \<^verbatim>\<open>bemintreg3ddiag\<close> returns
  the displacement buffers \<^verbatim>\<open>URe\<close> and \<^verbatim>\<open>UIm\<close> exactly as it received them, for
  every input, every kernel evaluator and every initial content of the
  matrices: the only buffers it changes are \<^verbatim>\<open>TRe\<close> and \<^verbatim>\<open>TIm\<close>.
\<close>

theorem subset_mode_leaves_U:
  fixes I :: "('a::{plus,minus,times}, 'k) reg3d"
  assumes "spassed I"
  shows "URe (bemintreg3ddiag I w m) = URe m \<and> UIm (bemintreg3ddiag I w m) = UIm m"
proof -
  let ?P = "\<lambda>x. URe (out x) = URe m \<and> UIm (out x) = UIm m"
  have "?P (fold (subset_point I) us \<lparr>work = w, out = m, cumul = 0\<rparr>)" for us
    by (rule fold_invariant [where P = ?P]) (simp_all add: subset_point_U)
  then show ?thesis using assms by (simp add: bemintreg3ddiag_def)
qed

theorem subset_mode_leaves_U_witness:
  "spassed demo_reg3d \<and>
   URe (bemintreg3ddiag demo_reg3d demo_kern3d zero_mats) = URe zero_mats \<and>
   UIm (bemintreg3ddiag demo_reg3d demo_kern3d zero_mats) = UIm zero_mats \<and>
   TRe (bemintreg3ddiag demo_reg3d demo_kern3d zero_mats) 16 = - 1"
proof -
  have h: "spassed demo_reg3d" by (simp add: demo_reg3d_def)
  have t: "TRe (bemintreg3ddiag demo_reg3d demo_kern3d zero_mats) 16 = - 1" by code_simp
  show ?thesis using h t subset_mode_leaves_U [OF h, of demo_kern3d zero_mats] by simp
qed

subsection \<open>The static kernel is taken off the diagonal block\<close>






subsection \<open>Subset mode and dense mode subtract the same terms\<close>



subsection \<open>Writes through the slot table\<close>

lemma sel_greenset_drops:
  "inddiag I (9*iu+3*scompi I e+scompj I e) = - 1 \<Longrightarrow> sel_greenset I k w iu e g m = m"
  by (simp add: sel_greenset_def)

lemma diag_greenset_frame:
  assumes "\<forall>c\<in>set (upto_uint 9). inddiag I (9*iu + c) \<noteq> - 1"
    and "\<forall>q. inddiag I q \<noteq> - 1 \<longrightarrow> j \<noteq> ms I * ns I * g + inddiag I q"
  shows "TRe (diag_greenset I k w iu g m) j = TRe m j \<and> TIm (diag_greenset I k w iu g m) j = TIm m j"
proof -
  have "j \<notin> set (slots9 (ms I * ns I * g) (inddiag I) iu)"
    unfolding slots9_map using assms by auto
  then have "j \<notin> fst ` set (zip (slots9 (ms I * ns I * g) (inddiag I) iu) (comps9 w X b))" for X b
    by (simp only: zip_slots9_fst not_False_eq_True)
  then show ?thesis
    by (simp add: diag_greenset_def Let_def sub_from_frame)
qed

lemma sel_greenset_frame:
  assumes "\<forall>q. inddiag I q \<noteq> - 1 \<longrightarrow> j \<noteq> ms I * ns I * g + inddiag I q"
  shows "TRe (sel_greenset I k w iu e g m) j = TRe m j \<and> TIm (sel_greenset I k w iu e g m) j = TIm m j"
  using assms by (auto simp: sel_greenset_def Let_def sub_from_def)

lemma subset_eltcoll_frame:
  assumes blk: "blockdiag I iu \<longrightarrow> (\<forall>c\<in>set (upto_uint 9). inddiag I (9*iu + c) \<noteq> - 1)"
    and j: "\<forall>g\<in>set (upto_uint (nGrSet I)). \<forall>q. inddiag I q \<noteq> - 1 \<longrightarrow>
              j \<noteq> ms I * ns I * g + inddiag I q"
  shows "TRe (subset_eltcoll I k c iu iXi iEltColl m) j = TRe m j \<and>
         TIm (subset_eltcoll I k c iu iXi iEltColl m) j = TIm m j"
proof -
  let ?P = "\<lambda>x. TRe x j = TRe m j \<and> TIm x j = TIm m j"
  have a: "blockdiag I iu \<Longrightarrow> ?P (fold (diag_greenset I k w iu) (upto_uint (nGrSet I)) m)" for w
    by (rule fold_invariant [where P = ?P]) (use blk j in \<open>simp_all add: diag_greenset_frame\<close>)
  have b: "?P x \<Longrightarrow> ?P (fold (sel_greenset I k w iu e) (upto_uint (nGrSet I)) x)" for w e x
    by (rule fold_invariant [where P = ?P]) (use j in \<open>simp_all add: sel_greenset_frame\<close>)
  have c: "?P (fold (\<lambda>i x.
            if scollj I (uniquescolliind I (c + i)) = EltCollIndex I iEltColl
            then fold (sel_greenset I k w iu (uniquescolliind I (c + i))) (upto_uint (nGrSet I)) x
            else x) js m)"
    for w js
    by (rule fold_invariant [where P = ?P]) (use b in auto)
  show ?thesis unfolding subset_eltcoll_def using a c by simp
qed

lemma subset_quad_point_frame:
  assumes blk: "blockdiag I iu \<longrightarrow> (\<forall>c\<in>set (upto_uint 9). inddiag I (9*iu + c) \<noteq> - 1)"
    and j: "\<forall>g\<in>set (upto_uint (nGrSet I)). \<forall>q. inddiag I q \<noteq> - 1 \<longrightarrow>
              j \<noteq> ms I * ns I * g + inddiag I q"
  shows "TRe (out (quad_point I p (\<lambda>k. subset_eltcoll I k c iu) iXi s)) j = TRe (out s) j \<and>
         TIm (out (quad_point I p (\<lambda>k. subset_eltcoll I k c iu) iXi s)) j = TIm (out s) j"
proof -
  let ?P = "\<lambda>x. TRe x j = TRe (out s) j \<and> TIm x j = TIm (out s) j"
  have "?P (fold (subset_eltcoll I k c iu iXi) es (out s))" for k es
    by (rule fold_invariant [where P = ?P]) (simp_all add: subset_eltcoll_frame [OF blk j])
  then show ?thesis by (simp add: quad_point_def Let_def)
qed

lemma subset_point_frame:
  assumes blk: "blockdiag I iu \<longrightarrow> (\<forall>c\<in>set (upto_uint 9). inddiag I (9*iu + c) \<noteq> - 1)"
    and j: "\<forall>g\<in>set (upto_uint (nGrSet I)). \<forall>q. inddiag I q \<noteq> - 1 \<longrightarrow>
              j \<noteq> ms I * ns I * g + inddiag I q"
  shows "TRe (out (subset_point I iu s)) j = TRe (out s) j \<and>
         TIm (out (subset_point I iu s)) j = TIm (out s) j"
proof -
  let ?P = "\<lambda>x. TRe (out x) j = TRe (out s) j \<and> TIm (out x) j = TIm (out s) j"
  have "?P (fold (quad_point I c (\<lambda>k. subset_eltcoll I k d iu)) xs s)" for c d xs
    by (rule fold_invariant [where P = ?P]) (simp_all add: subset_quad_point_frame [OF blk j])
  then show ?thesis by (simp add: subset_point_def Let_def)
qed

text \<open>
  Claim C4, as stated, fails in the block-diagonal branch, which writes its nine
  slots without looking at them.  For the sample input \<open>bad_reg3d\<close> (first slot of
  the block of point 0 equal to \<^verbatim>\<open>-1\<close>, \<^verbatim>\<open>blockdiag[0]\<close> set, 4 by 4 selection, two
  Green sets) the statement \<^verbatim>\<open>TRe[ind0+inddiag[9*iuniquescolli+0]]-=...\<close> of the
  second Green set is executed with \<^verbatim>\<open>ind0 = 16\<close> and lands on entry 15, the last
  entry of the first Green set.
\<close>

theorem blockdiag_sentinel_counterexample:
  "spassed bad_reg3d \<and> blockdiag bad_reg3d 0 \<and> inddiag bad_reg3d (9*0+0) = - 1 \<and>
   TRe zero_mats 15 = 0 \<and>
   TRe (bemintreg3ddiag bad_reg3d demo_kern3d zero_mats) 15 = - 1"
  by code_simp

text \<open>
  Claim C4, amended.  In the branch that is taken when \<^verbatim>\<open>blockdiag\<close> is not set, a
  component whose slot is \<^verbatim>\<open>-1\<close> is dropped: the pass returns the matrices
  unchanged.  The branch taken when \<^verbatim>\<open>blockdiag\<close> is set has no such test; provided
  \<^verbatim>\<open>blockdiag\<close> is set only for points whose nine slots are all present, the whole
  routine changes no entry of \<^verbatim>\<open>TRe\<close> or \<^verbatim>\<open>TIm\<close> other than those addressed
  through a present slot, in either branch.
\<close>

theorem present_slots_only:
  fixes I :: "('a::{plus,minus,times}, 'k) reg3d"
  assumes "spassed I"
    and blk: "\<forall>iu\<in>set (upto_uint (Nuniquescolli I)). blockdiag I iu \<longrightarrow>
               (\<forall>c\<in>set (upto_uint 9). inddiag I (9*iu + c) \<noteq> - 1)"
    and j: "\<forall>g\<in>set (upto_uint (nGrSet I)). \<forall>q. inddiag I q \<noteq> - 1 \<longrightarrow>
               j \<noteq> ms I * ns I * g + inddiag I q"
  shows "(inddiag I (9*iu+3*scompi I e+scompj I e) = - 1 \<longrightarrow> sel_greenset I k sumutil iu e g m = m)
       \<and> TRe (bemintreg3ddiag I w m) j = TRe m j \<and> TIm (bemintreg3ddiag I w m) j = TIm m j"
proof -
  let ?P = "\<lambda>x. TRe (out x) j = TRe m j \<and> TIm (out x) j = TIm m j"
  have "?P (fold (subset_point I) (upto_uint (Nuniquescolli I)) \<lparr>work = w, out = m, cumul = 0\<rparr>)"
    by (rule fold_invariant [where P = ?P]) (use blk j in \<open>simp_all add: subset_point_frame\<close>)
  then show ?thesis using assms(1) by (simp add: bemintreg3ddiag_def sel_greenset_drops)
qed

theorem present_slots_only_witness:
  "spassed sparse_reg3d \<and>
   inddiag sparse_reg3d (9*0+3*scompi sparse_reg3d 0+scompj sparse_reg3d 0) = - 1 \<and>
   sel_greenset sparse_reg3d demo_kern3d 1 0 0 1 zero_mats = zero_mats \<and>
   TRe (bemintreg3ddiag sparse_reg3d demo_kern3d zero_mats) 15 = TRe zero_mats 15 \<and>
   TIm (bemintreg3ddiag sparse_reg3d demo_kern3d zero_mats) 15 = TIm zero_mats 15 \<and>
   TRe (bemintreg3ddiag sparse_reg3d demo_kern3d zero_mats) 9 = - 1"
proof -
  have h1: "spassed sparse_reg3d"
    by (simp add: sparse_reg3d_def bad_reg3d_def demo_reg3d_def)
  have h2: "\<forall>iu\<in>set (upto_uint (Nuniquescolli sparse_reg3d)). blockdiag sparse_reg3d iu \<longrightarrow>
               (\<forall>c\<in>set (upto_uint 9). inddiag sparse_reg3d (9*iu + c) \<noteq> - 1)"
    by (simp add: sparse_reg3d_def)
  have nG: "upto_uint (nGrSet sparse_reg3d) = [0, 1]"
    by (simp add: sparse_reg3d_def bad_reg3d_def demo_reg3d_def upto_uint_def upt_conv_Cons)
  have h3: "\<forall>g\<in>set (upto_uint (nGrSet sparse_reg3d)). \<forall>q. inddiag sparse_reg3d q \<noteq> - 1 \<longrightarrow>
               15 \<noteq> ms sparse_reg3d * ns sparse_reg3d * g + inddiag sparse_reg3d q"
    unfolding nG by (simp add: sparse_reg3d_def bad_reg3d_def demo_reg3d_def)
  have h4: "inddiag sparse_reg3d (9*0+3*scompi sparse_reg3d 0+scompj sparse_reg3d 0) = - 1"
    by (simp add: sparse_reg3d_def bad_reg3d_def demo_reg3d_def)
  have t: "TRe (bemintreg3ddiag sparse_reg3d demo_kern3d zero_mats) 9 = - 1" by code_simp
  show ?thesis
    using h1 h4 t present_slots_only [OF h1 h2 h3, where iu = 0 and e = 0 and k = demo_kern3d
        and sumutil = 1 and g = 1 and m = zero_mats and w = demo_kern3d]
    by simp
qed

subsection \<open>The singular integration in two dimensions\<close>

lemma loop_throw_Inl:
  assumes "x \<in> set xs" and "\<And>s. body x s = Inl e" and "\<And>y s e'. body y s = Inl e' \<Longrightarrow> e' = e"
  shows "loop_throw body xs s = Inl e"
  using assms(1)
proof (induction xs arbitrary: s)
  case Nil
  then show ?case by simp
next
  case (Cons y ys)
  show ?case
  proof (cases "body y s")
    case (Inl e')
    then show ?thesis using assms(3) by simp
  next
    case (Inr s')
    then have "y \<noteq> x" using assms(2) by auto
    then have "x \<in> set ys" using Cons.prems by simp
    then show ?thesis using Cons.IH Inr by simp
  qed
qed

lemma sing2d_point_only_error: "sing2d_point I G p i s = Inl e \<Longrightarrow> e = CoincidentPoint"
  by (auto simp: sing2d_point_def Let_def split: prod.splits if_splits)

lemma sing2d_point_coincident:
  assumes "fst (offsets2d I G p i) = 0" and "fst (snd (offsets2d I G p i)) = 0"
  shows "sing2d_point I G p i s = Inl CoincidentPoint"
proof (cases "offsets2d I G p i")
  case (fields xiR xiZ Xsgn)
  then show ?thesis using assms by (simp add: sing2d_point_def)
qed

lemma offsets2d_evaluator:
  "offsets2d (I\<lparr>greeneval2d := ev, greenrotate2d := rot\<rparr>) G p i = offsets2d I G p i"
  by (simp add: offsets2d_def)

text \<open>
  Claim C2.  If a sample point of the singular rule has radial offset 0 and
  vertical offset 0 from the collocation point, \<^verbatim>\<open>bemintsing2d\<close> ends with the
  error of the coincident integration point and returns no matrices; the pass
  for that sample point ends with this error whatever the kernel evaluator and
  the rotation are, that is, before either of them is consulted.
\<close>

theorem coincident_point_is_fatal:
  fixes I :: "('a::{zero,one,uminus,plus,minus,times,abs,ord}, 'k) sing2d"
  assumes "iXi \<in> set (upto_uint (geom2d.nXi (geom2d_of I)))"
    and "fst (offsets2d I (geom2d_of I) iColl iXi) = 0"
    and "fst (snd (offsets2d I (geom2d_of I) iColl iXi)) = 0"
  shows "bemintsing2d I iColl w m = Inl CoincidentPoint
     \<and> sing2d_point (I\<lparr>greeneval2d := ev, greenrotate2d := rot\<rparr>) (geom2d_of I) iColl iXi s
          = Inl CoincidentPoint"
proof -
  have "loop_throw (sing2d_point I (geom2d_of I) iColl) (upto_uint (geom2d.nXi (geom2d_of I)))
          \<lparr>work = w, out = m\<rparr> = Inl CoincidentPoint"
    by (rule loop_throw_Inl [OF assms(1)])
       (simp_all add: sing2d_point_coincident [OF assms(2,3)] sing2d_point_only_error)
  then have a: "bemintsing2d I iColl w m = Inl CoincidentPoint"
    by (simp add: bemintsing2d_def Let_def)
  have b: "sing2d_point (I\<lparr>greeneval2d := ev, greenrotate2d := rot\<rparr>) (geom2d_of I) iColl iXi s
          = Inl CoincidentPoint"
    by (rule sing2d_point_coincident) (simp_all only: offsets2d_evaluator assms(2,3))
  show ?thesis using a b by simp
qed

lemma demo_geom2d:
  "geom2d.nXi (geom2d_of demo_sing2d) = 2"
  "geom2d.nXi (geom2d_of coincident_sing2d) = 2"
  "xiCart (geom2d_of demo_sing2d) 0 = 2" "xiCart (geom2d_of demo_sing2d) 1 = 0"
  "xiCart (geom2d_of demo_sing2d) 2 = 5" "xiCart (geom2d_of demo_sing2d) 3 = 7"
  "xiCart (geom2d_of coincident_sing2d) 2 = 5" "xiCart (geom2d_of coincident_sing2d) 3 = 7"
  by (simp_all add: geom2d_of_def xiCart_of_def coincident_sing2d_def demo_sing2d_def Let_def
      upto_uint_def upt_conv_Cons)

theorem coincident_point_is_fatal_witness:
  "1 \<in> set (upto_uint (geom2d.nXi (geom2d_of coincident_sing2d))) \<and>
   fst (offsets2d coincident_sing2d (geom2d_of coincident_sing2d) 0 1) = 0 \<and>
   fst (snd (offsets2d coincident_sing2d (geom2d_of coincident_sing2d) 0 1)) = 0 \<and>
   bemintsing2d coincident_sing2d 0 [] zero_mats = Inl CoincidentPoint"
proof -
  have h1: "1 \<in> set (upto_uint (geom2d.nXi (geom2d_of coincident_sing2d)))"
    by (simp add: demo_geom2d upto_uint_def upt_conv_Cons)
  have h2: "fst (offsets2d coincident_sing2d (geom2d_of coincident_sing2d) 0 1) = 0"
    by (simp add: offsets2d_def demo_geom2d Let_def) (simp add: coincident_sing2d_def demo_sing2d_def)
  have h3: "fst (snd (offsets2d coincident_sing2d (geom2d_of coincident_sing2d) 0 1)) = 0"
    by (simp add: offsets2d_def demo_geom2d Let_def) (simp add: coincident_sing2d_def demo_sing2d_def)
  show ?thesis
    using h1 h2 h3 coincident_point_is_fatal [OF h1 h2 h3, where w = "[]" and m = zero_mats
        and ev = record_call and rot = no_rotation and s = "\<lparr>work = [], out = zero_mats\<rparr>"]
    by simp
qed

lemma loop_throw_calls:
  fixes I :: "('a::{zero,one,uminus,plus,minus,times,abs,ord}, ('a \<times> 'a \<times> 'a) list) sing2d"
  assumes "greeneval2d I = record_call" and "greenrotate2d I = no_rotation"
    and "loop_throw (sing2d_point I G p) xs s = Inr s'"
  shows "work s' = work s @ map (offsets2d I G p) xs"
  using assms(3)
proof (induction xs arbitrary: s)
  case Nil
  then show ?case by simp
next
  case (Cons x xs)
  from Cons.prems obtain t where t: "sing2d_point I G p x s = Inr t"
    and r: "loop_throw (sing2d_point I G p) xs t = Inr s'"
    by (auto split: sum.splits)
  have "work t = work s @ [offsets2d I G p x]"
    using t assms(1,2)
    by (auto simp: sing2d_point_def Let_def record_call_def no_rotation_def
        split: prod.splits if_splits)
  then show ?case using Cons.IH [OF r] by simp
qed

lemma geom2d_regular_rule:
  "geom2d_of (I\<lparr>eltdef := (eltdef I)\<lparr>nGauss := a, nEltDiv := b\<rparr>\<rparr>) = geom2d_of I"
  by (simp add: geom2d_of_def xiCart_of_def Let_def)

text \<open>
  Claim C7.  \<^verbatim>\<open>bemintsing2d\<close> integrates over \<^verbatim>\<open>nEltDivSing*nGaussSing\<close> sample
  points, with the weights that \<^verbatim>\<open>gausspw1D\<close> returns for \<^verbatim>\<open>nEltDivSing\<close>
  subdivisions and \<^verbatim>\<open>nGaussSing\<close> Gauss points; the parameters \<^verbatim>\<open>nGauss\<close> and
  \<^verbatim>\<open>nEltDiv\<close> of the regular rule have no influence on the geometry it computes.
  With the recording evaluator in place of \<^verbatim>\<open>greeneval2d\<close>, a run that ends
  normally has called the evaluator once per sample point, in order, each time
  with the absolute value of the horizontal offset, the vertical offset and the
  sign of the horizontal offset of that very sample point.
\<close>

theorem singular_rule_and_signed_radius:
  fixes I :: "('a::{zero,one,uminus,plus,minus,times,abs,ord}, ('a \<times> 'a \<times> 'a) list) sing2d"
  assumes "greeneval2d I = record_call" and "greenrotate2d I = no_rotation"
    and "loop_throw (sing2d_point I (geom2d_of I) iColl) (upto_uint (geom2d.nXi (geom2d_of I)))
           \<lparr>work = [], out = m\<rparr> = Inr s'"
  shows "geom2d.nXi (geom2d_of I) = nEltDivSing (eltdef I) * nGaussSing (eltdef I)
     \<and> geom2d.H (geom2d_of I) = snd (gausspw1D I (nEltDivSing (eltdef I)) (nGaussSing (eltdef I)))
     \<and> geom2d_of (I\<lparr>eltdef := (eltdef I)\<lparr>nGauss := a, nEltDiv := b\<rparr>\<rparr>) = geom2d_of I
     \<and> work s' =
         map (\<lambda>iXi. (\<bar>xiCart (geom2d_of I) (2*iXi+0) - Coll I (2*nColl I+iColl)\<bar>,
                     xiCart (geom2d_of I) (2*iXi+1) - Coll I (4*nColl I+iColl),
                     sign (xiCart (geom2d_of I) (2*iXi+0) - Coll I (2*nColl I+iColl))))
           (upto_uint (nEltDivSing (eltdef I) * nGaussSing (eltdef I)))"
proof -
  have n: "geom2d.nXi (geom2d_of I) = nEltDivSing (eltdef I) * nGaussSing (eltdef I)"
    by (simp add: geom2d_of_def Let_def split: prod.splits)
  have h: "geom2d.H (geom2d_of I) = snd (gausspw1D I (nEltDivSing (eltdef I)) (nGaussSing (eltdef I)))"
    by (simp add: geom2d_of_def Let_def split: prod.splits)
  have "work s' = [] @ map (offsets2d I (geom2d_of I) iColl) (upto_uint (geom2d.nXi (geom2d_of I)))"
    using loop_throw_calls [OF assms(1,2,3)] by simp
  then have c: "work s' =
         map (\<lambda>iXi. (\<bar>xiCart (geom2d_of I) (2*iXi+0) - Coll I (2*nColl I+iColl)\<bar>,
                     xiCart (geom2d_of I) (2*iXi+1) - Coll I (4*nColl I+iColl),
                     sign (xiCart (geom2d_of I) (2*iXi+0) - Coll I (2*nColl I+iColl))))
           (upto_uint (nEltDivSing (eltdef I) * nGaussSing (eltdef I)))"
    unfolding n by (simp add: offsets2d_def Let_def)
  show ?thesis using n h c geom2d_regular_rule by simp
qed

lemma demo_sing2d_run:
  "loop_throw (sing2d_point demo_sing2d (geom2d_of demo_sing2d) 0)
     (upto_uint (geom2d.nXi (geom2d_of demo_sing2d))) \<lparr>work = [], out = zero_mats\<rparr>
   = Inr (projr (loop_throw (sing2d_point demo_sing2d (geom2d_of demo_sing2d) 0)
     (upto_uint (geom2d.nXi (geom2d_of demo_sing2d))) \<lparr>work = [], out = zero_mats\<rparr>))"
proof -
  have "\<not> isl (loop_throw (sing2d_point demo_sing2d (geom2d_of demo_sing2d) 0)
     (upto_uint (geom2d.nXi (geom2d_of demo_sing2d))) \<lparr>work = [], out = zero_mats\<rparr>)"
    by code_simp
  then show ?thesis by (simp add: sum.collapse(2))
qed

theorem singular_rule_and_signed_radius_witness:
  "greeneval2d demo_sing2d = record_call \<and> greenrotate2d demo_sing2d = no_rotation \<and>
   geom2d.nXi (geom2d_of demo_sing2d) = 2 \<and>
   work (projr (loop_throw (sing2d_point demo_sing2d (geom2d_of demo_sing2d) 0)
     (upto_uint (geom2d.nXi (geom2d_of demo_sing2d))) \<lparr>work = [], out = zero_mats\<rparr>))
   = [(3, 0, - 1), (0, 7, 1)]"
proof -
  have h: "greeneval2d demo_sing2d = record_call" "greenrotate2d demo_sing2d = no_rotation"
    by (simp_all add: demo_sing2d_def)
  have v: "nEltDivSing (eltdef demo_sing2d) * nGaussSing (eltdef demo_sing2d) = 2"
      "Coll demo_sing2d 2 = 5" "Coll demo_sing2d 4 = 0" "nColl demo_sing2d = 1"
    by (simp_all add: demo_sing2d_def)
  show ?thesis
    using h singular_rule_and_signed_radius [OF h demo_sing2d_run, of 5 7]
    by (simp add: v demo_geom2d upto_uint_def upt_conv_Cons sign_def)
qed

text \<open>
  Claim C10.  \<^verbatim>\<open>sign\<close> maps 0 to 1.  Hence at a sample point whose horizontal
  offset is 0 and whose vertical offset is not 0 the sign handed to the evaluator
  is 1, and the pass for that sample point does not end in an error: it calls
  the evaluator with the radial offset \<^verbatim>\<open>fabs(0)\<close>, the vertical offset and the
  sign 1, and accumulates.
\<close>

theorem sign_of_zero_offset:
  fixes I :: "('a::{zero,one,uminus,plus,minus,times,abs,ord}, 'k) sing2d"
  assumes "xiCart G (2*iXi+0) - Coll I (2*nColl I+iColl) = 0"
    and "xiCart G (2*iXi+1) - Coll I (4*nColl I+iColl) \<noteq> 0"
  shows "sign (0::'a) = 1
     \<and> snd (snd (offsets2d I G iColl iXi)) = 1
     \<and> sing2d_point I G iColl iXi s =
         Inr (s\<lparr>work := greenrotate2d I (normal G) iXi
                          (greeneval2d I \<bar>0\<bar> (xiCart G (2*iXi+1) - Coll I (4*nColl I+iColl)) 1 (work s)),
                 out := fold (sing2d_eltcoll I G
                         (kern2d I (greenrotate2d I (normal G) iXi
                            (greeneval2d I \<bar>0\<bar> (xiCart G (2*iXi+1) - Coll I (4*nColl I+iColl)) 1 (work s))))
                         iColl iXi)
                        (upto_uint (eltprops.nEltColl (eltdef I))) (out s)\<rparr>)"
  using assms by (simp add: sign_def offsets2d_def sing2d_point_def Let_def)

theorem sign_of_zero_offset_witness:
  "xiCart (geom2d_of demo_sing2d) (2*1+0) - Coll demo_sing2d (2*nColl demo_sing2d+0) = 0 \<and>
   xiCart (geom2d_of demo_sing2d) (2*1+1) - Coll demo_sing2d (4*nColl demo_sing2d+0) \<noteq> 0 \<and>
   sign (0::int) = 1 \<and>
   snd (snd (offsets2d demo_sing2d (geom2d_of demo_sing2d) 0 1)) = 1 \<and>
   work (projr (sing2d_point demo_sing2d (geom2d_of demo_sing2d) 0 1
                  \<lparr>work = [], out = zero_mats\<rparr>)) = [(0, 7, 1)]"
proof -
  have v: "Coll demo_sing2d 2 = 5" "Coll demo_sing2d 4 = 0" "nColl demo_sing2d = 1"
      "greeneval2d demo_sing2d = record_call" "greenrotate2d demo_sing2d = no_rotation"
    by (simp_all add: demo_sing2d_def)
  have h1: "xiCart (geom2d_of demo_sing2d) (2*1+0) - Coll demo_sing2d (2*nColl demo_sing2d+0) = 0"
    by (simp add: v demo_geom2d)
  have h2: "xiCart (geom2d_of demo_sing2d) (2*1+1) - Coll demo_sing2d (4*nColl demo_sing2d+0) \<noteq> 0"
    by (simp add: v demo_geom2d)
  show ?thesis
    using h1 h2 sign_of_zero_offset [OF h1 h2, of "\<lparr>work = [], out = zero_mats\<rparr>"]
    by (simp add: v demo_geom2d record_call_def no_rotation_def)
qed

subsection \<open>Set-up of the kernel families\<close>

lemma first_throw_None: "first_throw cs = None \<longleftrightarrow> (\<forall>p\<in>set cs. \<not> fst p)"
  by (auto simp: first_throw_def find_None_iff)

lemma first_throw_append_None:
  "first_throw (as @ bs) = None \<longleftrightarrow> first_throw as = None \<and> first_throw bs = None"
  by (auto simp: first_throw_None)

lemma first_throw_append_left:
  "first_throw as = None \<Longrightarrow> first_throw (as @ bs) = first_throw bs"
  by (induction as) (auto simp: first_throw_def)

lemma first_throw_append_Some:
  "first_throw as = Some e \<Longrightarrow> first_throw (as @ bs) = Some e"
  by (induction as) (auto simp: first_throw_def split: if_splits)

lemma first_throw_Cons: "first_throw ((c, e) # cs) = (if c then Some e else first_throw cs)"
  by (simp add: first_throw_def)

lemma increasing_throws_None:
  "first_throw (increasing_throws name x n) = None \<longleftrightarrow> increasing_grid x n"
  by (auto simp: first_throw_None increasing_throws_def increasing_grid_def list_all_iff)

lemma map_throws_Some:
  "first_throw (map (\<lambda>i. (c i, e)) xs) = Some e' \<Longrightarrow> e' = e"
  by (induction xs) (auto simp: first_throw_def split: if_splits)

lemma increasing_throws_Some:
  assumes "\<not> increasing_grid x n"
  shows "first_throw (increasing_throws name x n) = Some (MustBeIncreasing name)"
proof -
  obtain e where e: "first_throw (increasing_throws name x n) = Some e"
    using assms increasing_throws_None [of name x n] by auto
  then have "e = MustBeIncreasing name"
    unfolding increasing_throws_def by (rule map_throws_Some)
  then show ?thesis using e by simp
qed

lemma grid_throws_None:
  "first_throw (grid_throws name a) = None \<Longrightarrow>
     increasing_grid (mxGetPr a) (ucast (mxGetNumberOfElements a))"
  by (simp add: grid_throws_def first_throw_Cons increasing_throws_None split: if_splits)

lemma grid_throws_Some:
  assumes "mxIsNumeric a" "\<not> mxIsSparse a" "\<not> mxIsEmpty a"
    and "\<not> increasing_grid (mxGetPr a) (ucast (mxGetNumberOfElements a))"
  shows "first_throw (grid_throws name a) = Some (MustBeIncreasing name)"
  using assms by (simp add: grid_throws_def first_throw_Cons increasing_throws_Some)

lemma IntegrateGreenUser_Inr:
  "IntegrateGreenUser A = Inr P \<Longrightarrow> first_throw (user_throws A) = None"
  by (auto simp: IntegrateGreenUser_def split: option.splits)

lemma IntegrateGreenUser_Inl:
  "first_throw (user_throws A) = Some e \<Longrightarrow> IntegrateGreenUser A = Inl e"
  by (simp add: IntegrateGreenUser_def)

text \<open>
  Claim C5.  \<^verbatim>\<open>IntegrateGreenUser\<close> reaches the allocation of the output matrices
  and the call of \<^verbatim>\<open>bemmat\<close> only if each of the grids \<^verbatim>\<open>zs\<close>, \<^verbatim>\<open>r\<close> and \<^verbatim>\<open>z\<close>
  is strictly increasing; otherwise it ends with an error and nothing is
  created.  When the tests before it pass and \<^verbatim>\<open>zs\<close> is not strictly increasing,
  the error is the one that names \<^verbatim>\<open>zs\<close>.
\<close>

theorem user_grids_validated:
  fixes A :: "'a::ord mexargs"
  shows "(IntegrateGreenUser A = Inr P \<longrightarrow>
            increasing_grid (mxGetPr (prhs A (greenPos A+1)))
              (ucast (mxGetNumberOfElements (prhs A (greenPos A+1)))) \<and>
            increasing_grid (mxGetPr (prhs A (greenPos A+2)))
              (ucast (mxGetNumberOfElements (prhs A (greenPos A+2)))) \<and>
            increasing_grid (mxGetPr (prhs A (greenPos A+3)))
              (ucast (mxGetNumberOfElements (prhs A (greenPos A+3)))))
       \<and> (first_throw (nrhs_throws A) = None \<and>
            mxIsNumeric (prhs A (greenPos A+1)) \<and> \<not> mxIsSparse (prhs A (greenPos A+1)) \<and>
            \<not> mxIsEmpty (prhs A (greenPos A+1)) \<and>
            \<not> increasing_grid (mxGetPr (prhs A (greenPos A+1)))
                (ucast (mxGetNumberOfElements (prhs A (greenPos A+1))))
          \<longrightarrow> IntegrateGreenUser A = Inl (MustBeIncreasing ''zs''))"
proof (intro conjI impI)
  assume "IntegrateGreenUser A = Inr P"
  then have n: "first_throw (user_throws A) = None" by (rule IntegrateGreenUser_Inr)
  then have "first_throw (grid_throws ''zs'' (prhs A (greenPos A+1))) = None"
    and "first_throw (grid_throws ''r'' (prhs A (greenPos A+2))) = None"
    and "first_throw (grid_throws ''z'' (prhs A (greenPos A+3))) = None"
    by (simp_all add: user_throws_def first_throw_append_None)
  then show "increasing_grid (mxGetPr (prhs A (greenPos A+1)))
              (ucast (mxGetNumberOfElements (prhs A (greenPos A+1))))"
    and "increasing_grid (mxGetPr (prhs A (greenPos A+2)))
              (ucast (mxGetNumberOfElements (prhs A (greenPos A+2))))"
    and "increasing_grid (mxGetPr (prhs A (greenPos A+3)))
              (ucast (mxGetNumberOfElements (prhs A (greenPos A+3))))"
    by (simp_all add: grid_throws_None)
next
  assume a: "first_throw (nrhs_throws A) = None \<and>
            mxIsNumeric (prhs A (greenPos A+1)) \<and> \<not> mxIsSparse (prhs A (greenPos A+1)) \<and>
            \<not> mxIsEmpty (prhs A (greenPos A+1)) \<and>
            \<not> increasing_grid (mxGetPr (prhs A (greenPos A+1)))
                (ucast (mxGetNumberOfElements (prhs A (greenPos A+1))))"
  then have "first_throw (grid_throws ''zs'' (prhs A (greenPos A+1))) = Some (MustBeIncreasing ''zs'')"
    by (simp add: grid_throws_Some)
  then have "first_throw (user_throws A) = Some (MustBeIncreasing ''zs'')"
    using a by (simp add: user_throws_def first_throw_append_left first_throw_append_Some)
  then show "IntegrateGreenUser A = Inl (MustBeIncreasing ''zs'')"
    by (rule IntegrateGreenUser_Inl)
qed

theorem user_grids_validated_witness:
  "IntegrateGreenUser demo_user = Inr demo_user_prepared \<and>
   increasing_grid (mxGetPr (prhs demo_user (greenPos demo_user+1)))
     (ucast (mxGetNumberOfElements (prhs demo_user (greenPos demo_user+1)))) \<and>
   increasing_grid (mxGetPr (prhs demo_user (greenPos demo_user+2)))
     (ucast (mxGetNumberOfElements (prhs demo_user (greenPos demo_user+2)))) \<and>
   increasing_grid (mxGetPr (prhs demo_user (greenPos demo_user+3)))
     (ucast (mxGetNumberOfElements (prhs demo_user (greenPos demo_user+3)))) \<and>
   \<not> increasing_grid (mxGetPr (prhs bad_user (greenPos bad_user+1)))
       (ucast (mxGetNumberOfElements (prhs bad_user (greenPos bad_user+1)))) \<and>
   IntegrateGreenUser bad_user = Inl (MustBeIncreasing ''zs'')"
proof -
  have e: "IntegrateGreenUser demo_user = Inr demo_user_prepared"
    by code_simp
  have b: "first_throw (nrhs_throws bad_user) = None \<and>
            mxIsNumeric (prhs bad_user (greenPos bad_user+1)) \<and>
            \<not> mxIsSparse (prhs bad_user (greenPos bad_user+1)) \<and>
            \<not> mxIsEmpty (prhs bad_user (greenPos bad_user+1)) \<and>
            \<not> increasing_grid (mxGetPr (prhs bad_user (greenPos bad_user+1)))
                (ucast (mxGetNumberOfElements (prhs bad_user (greenPos bad_user+1))))"
    by code_simp
  show ?thesis
    using e b user_grids_validated [of demo_user demo_user_prepared]
      user_grids_validated [of bad_user demo_user_prepared]
    by blast
qed









end
